theory Spec2Isabelle
  imports Main "HOL-Library.AList"
begin

section \<open>Python values\<close>

text \<open>
  The orchestrator of \<^verbatim>\<open>src/main.py\<close> reads a YAML document, an environment file and the
  parsed command line, merges them into an \<^verbatim>\<open>OrchestratorConfig\<close>, derives a flat
  parameter dictionary from it and probes external tools.

  A value loaded from YAML is dynamically typed: the code applies truthiness (\<^verbatim>\<open>or\<close>,
  \<^verbatim>\<open>if\<close>, \<^verbatim>\<open>not\<close>), \<^verbatim>\<open>isinstance(_, dict)\<close>, \<^verbatim>\<open>.get\<close>, \<^verbatim>\<open>.items()\<close>
  and \<^verbatim>\<open>in\<close> to it. \<open>pyval\<close> covers null, booleans, integers, strings, sequences and
  mappings; a mapping is the list of its items in insertion order. YAML floats, timestamps
  and binary scalars are not covered.

  The strings of the configuration (\<open>string\<close>) are lists of 8-bit characters; the only
  operations on them whose result depends on the character set are \<^verbatim>\<open>capitalize\<close> and
  \<^verbatim>\<open>lower\<close>, which are modelled on the ASCII letters. The text a process writes is
  stripped of whitespace by the program, so it is modelled as the list of its Unicode code
  points (\<open>unicode\<close>).
\<close>

type_synonym unicode = "nat list"

text \<open>The code points of a string of the program.\<close>

definition codes :: "string \<Rightarrow> unicode" where
  "codes s = map of_char s"

datatype pyval =
    PNone
  | PBool bool
  | PInt int
  | PStr string
  | PList "pyval list"
  | PDict "(pyval \<times> pyval) list"

text \<open>The exceptions that can escape a call in this program.\<close>

datatype py_error =
    AttributeError
  | IndexError
  | TypeError
  | ValueError
  | YAMLError
  | FileNotFoundError
  | PermissionError
  | CalledProcessError int "unicode option" "unicode option"
  | UnicodeDecodeError
  | UnicodeEncodeError
  | OSError

text \<open>
  Sequencing of calls that may raise: the first exception raised escapes, and the rest is
  not run.
\<close>

definition and_then :: "'e + 'a \<Rightarrow> ('a \<Rightarrow> 'e + 'b) \<Rightarrow> 'e + 'b" where
  "and_then m f = (case m of Inl e \<Rightarrow> Inl e | Inr x \<Rightarrow> f x)"

text \<open>Python truthiness: what \<^verbatim>\<open>bool(v)\<close> returns.\<close>

fun truthy :: "pyval \<Rightarrow> bool" where
  "truthy PNone = False"
| "truthy (PBool b) = b"
| "truthy (PInt i) = (i \<noteq> 0)"
| "truthy (PStr s) = (s \<noteq> [])"
| "truthy (PList xs) = (xs \<noteq> [])"
| "truthy (PDict kvs) = (kvs \<noteq> [])"

text \<open>
  \<^verbatim>\<open>d.get(key, default)\<close> with a string key. Only \<^verbatim>\<open>dict\<close> has the method: on any
  other value the attribute lookup raises \<^verbatim>\<open>AttributeError\<close>.
\<close>

fun dict_get :: "pyval \<Rightarrow> string \<Rightarrow> pyval \<Rightarrow> py_error + pyval" where
  "dict_get (PDict kvs) key dflt =
     Inr (case map_of kvs (PStr key) of Some v \<Rightarrow> v | None \<Rightarrow> dflt)"
| "dict_get _ key dflt = Inl AttributeError"

text \<open>
  \<^verbatim>\<open>a or b\<close>: the left operand when it is truthy, otherwise the right operand, which is
  evaluated only then. The right operand is passed as the outcome of its evaluation, so
  that an exception it would raise is dropped when the left operand decides.
\<close>

definition py_or :: "pyval \<Rightarrow> py_error + pyval \<Rightarrow> py_error + pyval" where
  "py_or a b = (if truthy a then Inr a else b)"

text \<open>An \<^verbatim>\<open>Optional[str]\<close> as a Python value.\<close>

definition opt_str :: "string option \<Rightarrow> pyval" where
  "opt_str s = (case s of None \<Rightarrow> PNone | Some t \<Rightarrow> PStr t)"

section \<open>Strings\<close>

text \<open>
  \<^verbatim>\<open>s.split(sep)\<close> for a one-character separator: every occurrence splits. It is used on
  strings and on text.
\<close>

fun split_on :: "'a \<Rightarrow> 'a list \<Rightarrow> 'a list list" where
  "split_on sep [] = [[]]"
| "split_on sep (x # xs) =
     (if x = sep then [] # split_on sep xs
      else (case split_on sep xs of
              [] \<Rightarrow> [[x]]
            | w # ws \<Rightarrow> (x # w) # ws))"

text \<open>
  \<^verbatim>\<open>key, value = s.split('=', 1)\<close> under the guard \<^verbatim>\<open>'=' in s\<close>: the text before the
  first separator and the text after it.
\<close>

definition split_first :: "char \<Rightarrow> string \<Rightarrow> string \<times> string" where
  "split_first sep s = (takeWhile (\<lambda>c. c \<noteq> sep) s, tl (dropWhile (\<lambda>c. c \<noteq> sep) s))"

definition is_lower :: "char \<Rightarrow> bool" where
  "is_lower c = (97 \<le> (of_char c :: nat) \<and> (of_char c :: nat) \<le> 122)"

definition is_upper :: "char \<Rightarrow> bool" where
  "is_upper c = (65 \<le> (of_char c :: nat) \<and> (of_char c :: nat) \<le> 90)"

definition upper_char :: "char \<Rightarrow> char" where
  "upper_char c = (if is_lower c then char_of ((of_char c :: nat) - 32) else c)"

definition lower_char :: "char \<Rightarrow> char" where
  "lower_char c = (if is_upper c then char_of ((of_char c :: nat) + 32) else c)"

text \<open>
  \<^verbatim>\<open>s.lower()\<close> and \<^verbatim>\<open>s.capitalize()\<close> (first character upper case, the rest lower case),
  on the ASCII letters: a character outside ASCII is left as it is, where Python maps it
  by the Unicode tables. Whether the result is empty does not depend on the tables.
\<close>

definition lower :: "string \<Rightarrow> string" where
  "lower s = map lower_char s"

definition capitalize :: "string \<Rightarrow> string" where
  "capitalize s = (case s of [] \<Rightarrow> [] | c # cs \<Rightarrow> upper_char c # lower cs)"

text \<open>
  \<^verbatim>\<open>s.strip()\<close> on text: leading and trailing whitespace removed. The whitespace
  characters are those of \<^verbatim>\<open>str.isspace\<close>: U+0009 to U+000D, U+001C to U+0020, U+0085,
  U+00A0, U+1680, U+2000 to U+200A, U+2028, U+2029, U+202F, U+205F and U+3000.
\<close>

definition is_space :: "nat \<Rightarrow> bool" where
  "is_space c = ((9 \<le> c \<and> c \<le> 13) \<or> (28 \<le> c \<and> c \<le> 32) \<or> c = 133 \<or> c = 160
                 \<or> c = 5760 \<or> (8192 \<le> c \<and> c \<le> 8202) \<or> c = 8232 \<or> c = 8233
                 \<or> c = 8239 \<or> c = 8287 \<or> c = 12288)"

definition strip :: "unicode \<Rightarrow> unicode" where
  "strip s = rev (dropWhile is_space (rev (dropWhile is_space s)))"

section \<open>The configuration\<close>

text \<open>
  The namespace \<^verbatim>\<open>argparse\<close> returns: the \<^verbatim>\<open>store_true\<close> flags are booleans, the
  \<^verbatim>\<open>type=str\<close> options are \<^verbatim>\<open>None\<close> when not given, and \<^verbatim>\<open>--set\<close> (\<^verbatim>\<open>append\<close>) is
  \<^verbatim>\<open>None\<close> when never given.
\<close>

record args =
  arg_dry_run :: bool
  arg_what_if :: bool
  arg_apply :: bool
  arg_destroy :: bool
  arg_resources :: bool
  arg_profile :: "string option"
  arg_env :: "string option"
  arg_location :: "string option"
  arg_subscription :: "string option"
  arg_set :: "string list option"

text \<open>
  The dataclass \<^verbatim>\<open>OrchestratorConfig\<close>. The annotations of the scalar fields are not
  enforced: a field resolved from YAML holds whatever value the document has there.
  The field \<^verbatim>\<open>apply\<close> is named \<open>apply_flag\<close> here.
\<close>

record OrchestratorConfig =
  subscription_id :: pyval
  location :: pyval
  env_name :: pyval
  profile :: pyval
  resources :: pyval
  dry_run :: pyval
  what_if :: pyval
  apply_flag :: bool
  destroy :: bool
  extra_params :: "(string \<times> string) list"

definition default_resources :: pyval where
  "default_resources = PDict
     [(PStr ''container_registry'', PDict [(PStr ''enabled'', PBool True)]),
      (PStr ''storage_account'', PDict [(PStr ''enabled'', PBool True)]),
      (PStr ''ai_services'', PDict [(PStr ''enabled'', PBool True)]),
      (PStr ''search_service'', PDict [(PStr ''enabled'', PBool True)])]"

text \<open>\<^verbatim>\<open>__post_init__\<close>: a falsy \<^verbatim>\<open>resources\<close> is replaced by the built-in set.\<close>

definition post_init :: "OrchestratorConfig \<Rightarrow> OrchestratorConfig" where
  "post_init c = (if \<not> truthy (resources c) then c\<lparr>resources := default_resources\<rparr> else c)"

text \<open>
  The loop over \<^verbatim>\<open>args.set\<close>: a parameter with an \<^verbatim>\<open>=\<close> is split at the first one
  and stored under its key, a later one replacing an earlier one; the others are skipped.
  \<^verbatim>\<open>AList.update\<close> is the dictionary assignment: an existing key keeps its place.
\<close>

definition set_extra_param :: "string \<Rightarrow> OrchestratorConfig \<Rightarrow> OrchestratorConfig" where
  "set_extra_param param c =
     (if CHR ''='' \<in> set param
      then (case split_first CHR ''='' param of
              (key, val) \<Rightarrow> c\<lparr>extra_params := AList.update key val (extra_params c)\<rparr>)
      else c)"

definition set_extra_params :: "string list option \<Rightarrow> OrchestratorConfig \<Rightarrow> OrchestratorConfig" where
  "set_extra_params s c =
     (case s of
        None \<Rightarrow> c
      | Some params \<Rightarrow> (if params = [] then c else fold set_extra_param params c))"

text \<open>
  \<^verbatim>\<open>resolve_config\<close>. Its first two statements read the environment file and the YAML
  file; their results, \<open>env_vars\<close> and \<open>yaml_config\<close>, are the parameters here. The keyword
  arguments of the constructor are evaluated in the order they are written, and the first
  exception raised escapes.
\<close>

definition resolve_config ::
  "args \<Rightarrow> (string \<times> string) list \<Rightarrow> pyval \<Rightarrow> py_error + OrchestratorConfig" where
  "resolve_config a env_vars yaml_config =
    and_then (dict_get yaml_config ''azure'' (PDict [])) (\<lambda>azure_config.
    and_then (dict_get yaml_config ''environment'' (PDict [])) (\<lambda>env_config.
    and_then (dict_get yaml_config ''resources'' (PDict [])) (\<lambda>resources_config.
    and_then (dict_get yaml_config ''deployment'' (PDict [])) (\<lambda>deployment_config.
    and_then
      (py_or (opt_str (arg_subscription a))
        (py_or (opt_str (map_of env_vars ''AZURE_SUBSCRIPTION_ID''))
          (dict_get azure_config ''subscription_id'' PNone))) (\<lambda>v_subscription_id.
    and_then
      (py_or (opt_str (arg_location a))
        (py_or (opt_str (map_of env_vars ''AZURE_LOCATION''))
          (dict_get azure_config ''location'' (PStr ''eastus'')))) (\<lambda>v_location.
    and_then
      (py_or (opt_str (arg_env a))
        (py_or (opt_str (map_of env_vars ''AZURE_ENV_NAME''))
          (dict_get env_config ''name'' (PStr ''dev'')))) (\<lambda>v_env_name.
    and_then
      (py_or (opt_str (arg_profile a))
        (py_or (opt_str (map_of env_vars ''PROFILE''))
          (dict_get env_config ''profile'' (PStr ''default'')))) (\<lambda>v_profile.
    and_then
      (py_or (PBool (arg_dry_run a))
        (dict_get deployment_config ''dry_run'' (PBool False))) (\<lambda>v_dry_run.
    and_then
      (py_or (PBool (arg_what_if a))
        (dict_get deployment_config ''what_if'' (PBool False))) (\<lambda>v_what_if.
    Inr (set_extra_params (arg_set a)
      (post_init
        \<lparr> subscription_id = v_subscription_id,
          location = v_location,
          env_name = v_env_name,
          profile = v_profile,
          resources = (if arg_resources a then resources_config else resources_config),
          dry_run = v_dry_run,
          what_if = v_what_if,
          apply_flag = arg_apply a,
          destroy = arg_destroy a,
          extra_params = [] \<rparr>))))))))))))"

section \<open>The source readers\<close>

text \<open>
  \<^verbatim>\<open>load_env_file\<close> is taken by its outcome, the mapping it returns or the exception it
  raises (see \<open>world\<close> below); how it parses the lines of the file is not modelled.
\<close>

text \<open>
  \<^verbatim>\<open>load_yaml_config\<close>. \<open>file\<close> is what \<^verbatim>\<open>yaml.safe_load\<close> does on \<^verbatim>\<open>config.yaml\<close>
  (the document, or the parser's exception), \<open>None\<close> when the file does not exist.
\<close>

definition load_yaml_config :: "bool \<Rightarrow> (py_error + pyval) option \<Rightarrow> py_error + pyval" where
  "load_yaml_config has_yaml file =
     (case file of
        None \<Rightarrow> Inr (PDict [])
      | Some parsed \<Rightarrow>
          (if has_yaml
           then and_then parsed (\<lambda>doc. Inr (if truthy doc then doc else PDict []))
           else Inr (PDict [])))"

section \<open>The parameter builder\<close>

text \<open>\<^verbatim>\<open>d.items()\<close>: only a \<^verbatim>\<open>dict\<close> has the method.\<close>

fun dict_items :: "pyval \<Rightarrow> py_error + (pyval \<times> pyval) list" where
  "dict_items (PDict kvs) = Inr kvs"
| "dict_items _ = Inl AttributeError"

text \<open>
  The two assignments to \<^verbatim>\<open>param_name\<close>: the words between underscores are capitalised
  and joined, then the first character is lowered. \<^verbatim>\<open>param_name[0]\<close> raises
  \<^verbatim>\<open>IndexError\<close> when the joined string is empty.
\<close>

definition camel_name :: "string \<Rightarrow> py_error + string" where
  "camel_name resource_name =
     (case concat (map capitalize (split_on CHR ''_'' resource_name)) of
        [] \<Rightarrow> Inl IndexError
      | c # cs \<Rightarrow> Inr (lower [c] @ cs))"

text \<open>
  The body of the loop over \<^verbatim>\<open>config.resources.items()\<close>. \<^verbatim>\<open>resource_name.split\<close>
  exists only on a string: another key raises \<^verbatim>\<open>AttributeError\<close>.
\<close>

definition resource_param ::
  "pyval \<times> pyval \<Rightarrow> (string \<times> pyval) list \<Rightarrow> py_error + (string \<times> pyval) list" where
  "resource_param item params =
     (case item of (resource_name, resource_config) \<Rightarrow>
       (case resource_config of
          PDict kvs \<Rightarrow>
            (if truthy (case map_of kvs (PStr ''enabled'') of Some v \<Rightarrow> v | None \<Rightarrow> PBool True)
             then (case resource_name of
                     PStr name \<Rightarrow>
                       and_then (camel_name name) (\<lambda>param_name.
                         Inr (case map_of kvs (PStr ''sku'') of
                                Some sku \<Rightarrow> AList.update (param_name @ ''Sku'') sku params
                              | None \<Rightarrow> params))
                   | _ \<Rightarrow> Inl AttributeError)
             else Inr params)
        | _ \<Rightarrow> Inr params))"

fun resource_params ::
  "(pyval \<times> pyval) list \<Rightarrow> (string \<times> pyval) list \<Rightarrow> py_error + (string \<times> pyval) list" where
  "resource_params [] params = Inr params"
| "resource_params (item # items) params =
     and_then (resource_param item params) (resource_params items)"

text \<open>\<^verbatim>\<open>params.update(config.extra_params)\<close>.\<close>

definition update_params ::
  "(string \<times> string) list \<Rightarrow> (string \<times> pyval) list \<Rightarrow> (string \<times> pyval) list" where
  "update_params extra params = fold (\<lambda>kv. AList.update (fst kv) (PStr (snd kv))) extra params"

definition build_infra_params :: "OrchestratorConfig \<Rightarrow> py_error + (string \<times> pyval) list" where
  "build_infra_params config =
     (let params = [(''location'', location config), (''environmentName'', env_name config)];
          params = (if truthy (subscription_id config)
                    then AList.update ''subscriptionId'' (subscription_id config) params
                    else params)
      in and_then (dict_items (resources config)) (\<lambda>items.
         and_then (resource_params items params) (\<lambda>params.
         Inr (update_params (extra_params config) params))))"

section \<open>The tool inspector\<close>

text \<open>
  The operating system, as far as the program sees it:
  \<^verbatim>\<open>subprocess.run(command, capture_output=True, text=True)\<close> up to its result, that is
  creating the process, waiting for it and decoding the two captured streams. It raises
  (\<^verbatim>\<open>FileNotFoundError\<close> when no binary of the name is found, \<^verbatim>\<open>PermissionError\<close>,
  \<^verbatim>\<open>UnicodeDecodeError\<close> when a stream does not decode, and others), or it gives the
  exit status with the decoded standard output and standard error.
\<close>

type_synonym os_exec = "string list \<Rightarrow> py_error + (int \<times> unicode \<times> unicode)"

record CompletedProcess =
  returncode :: int
  stdout :: "unicode option"
  stderr :: "unicode option"

text \<open>
  \<^verbatim>\<open>subprocess.run(command, capture_output=capture, text=True, check=check)\<close>: without
  capture the two streams of the result are \<^verbatim>\<open>None\<close>; with \<^verbatim>\<open>check\<close> a non-zero exit
  status raises \<^verbatim>\<open>CalledProcessError\<close>.
\<close>

definition subprocess_run ::
  "os_exec \<Rightarrow> string list \<Rightarrow> bool \<Rightarrow> bool \<Rightarrow> py_error + CompletedProcess" where
  "subprocess_run exec command capture check =
     and_then (exec command) (\<lambda>r. case r of (rc, out, err) \<Rightarrow>
       (let so = (if capture then Some out else None);
            se = (if capture then Some err else None)
        in if check \<and> rc \<noteq> 0 then Inl (CalledProcessError rc so se)
           else Inr \<lparr> returncode = rc, stdout = so, stderr = se \<rparr>))"

text \<open>
  \<^verbatim>\<open>run\<close>: a missing binary becomes a result with status 127; a
  \<^verbatim>\<open>CalledProcessError\<close> becomes a result unless \<open>check\<close> was asked for; every other
  exception escapes.
\<close>

definition run :: "os_exec \<Rightarrow> string list \<Rightarrow> bool \<Rightarrow> bool \<Rightarrow> py_error + CompletedProcess" where
  "run exec command capture check =
     (case subprocess_run exec command capture check of
        Inr result \<Rightarrow> Inr result
      | Inl FileNotFoundError \<Rightarrow>
          (case command of
             [] \<Rightarrow> Inl IndexError
           | c # _ \<Rightarrow> Inr \<lparr> returncode = 127, stdout = Some [],
                           stderr = Some (codes ''Command not found: '' @ codes c) \<rparr>)
      | Inl (CalledProcessError rc so se) \<Rightarrow>
          (if \<not> check then Inr \<lparr> returncode = rc, stdout = so, stderr = se \<rparr>
           else Inl (CalledProcessError rc so se))
      | Inl e \<Rightarrow> Inl e)"

text \<open>The loop body of \<^verbatim>\<open>require_tools\<close>, and the function.\<close>

definition require_tool ::
  "os_exec \<Rightarrow> string \<Rightarrow> (string \<times> bool) list \<Rightarrow> py_error + (string \<times> bool) list" where
  "require_tool exec tool results =
     (if tool = ''bicep''
      then and_then (run exec [''az'', ''bicep'', ''version''] True False) (\<lambda>result.
             Inr (AList.update tool (returncode result = 0) results))
      else and_then (run exec [tool, ''--version''] True False) (\<lambda>result.
             Inr (AList.update tool (returncode result = 0) results)))"

fun require_tools_loop ::
  "os_exec \<Rightarrow> string list \<Rightarrow> (string \<times> bool) list \<Rightarrow> py_error + (string \<times> bool) list" where
  "require_tools_loop exec [] results = Inr results"
| "require_tools_loop exec (tool # tools) results =
     and_then (require_tool exec tool results) (require_tools_loop exec tools)"

definition require_tools ::
  "os_exec \<Rightarrow> string list option \<Rightarrow> py_error + (string \<times> bool) list" where
  "require_tools exec tools =
     require_tools_loop exec
       (case tools of None \<Rightarrow> [''az'', ''azd'', ''bicep''] | Some ts \<Rightarrow> ts) []"

text \<open>
  \<^verbatim>\<open>get_tool_version\<close>. The body is inside \<^verbatim>\<open>try ... except Exception: pass\<close>, so every
  exception of the model ends in the final \<^verbatim>\<open>return None\<close>; so would the
  \<^verbatim>\<open>AttributeError\<close> of \<^verbatim>\<open>None.strip()\<close> and the \<^verbatim>\<open>IndexError\<close> of an empty split.
\<close>

definition get_tool_version :: "os_exec \<Rightarrow> string \<Rightarrow> unicode option" where
  "get_tool_version exec tool =
     (case (if tool = ''bicep'' then run exec [''az'', ''bicep'', ''version''] True False
            else run exec [tool, ''--version''] True False) of
        Inl e \<Rightarrow> None
      | Inr result \<Rightarrow>
          (if returncode result = 0
           then (case stdout result of
                   None \<Rightarrow> None
                 | Some out \<Rightarrow>
                     (let output = strip out in
                      if output \<noteq> []
                      then (case split_on 10 output of [] \<Rightarrow> None | l # _ \<Rightarrow> Some l)
                      else None))
           else None))"

section \<open>Printing\<close>

text \<open>
  \<^verbatim>\<open>print\<close> raises \<^verbatim>\<open>UnicodeEncodeError\<close> when the encoding of \<^verbatim>\<open>sys.stdout\<close> lacks a
  character of the text. The stream is described by what it can encode: the text of a
  value of the configuration, a text a process has written, and the two marks U+2713 and
  U+2717 that the tool report and the validation print. The literal text of the program
  is otherwise ASCII; the stream is taken to be open and to encode ASCII.
\<close>

record stdout_stream =
  prints_value :: "pyval \<Rightarrow> bool"
  prints_text :: "unicode \<Rightarrow> bool"
  prints_marks :: bool

definition print_value :: "stdout_stream \<Rightarrow> pyval \<Rightarrow> py_error + unit" where
  "print_value out v = (if prints_value out v then Inr () else Inl UnicodeEncodeError)"

fun print_values :: "stdout_stream \<Rightarrow> pyval list \<Rightarrow> py_error + unit" where
  "print_values out [] = Inr ()"
| "print_values out (v # vs) = and_then (print_value out v) (\<lambda>_. print_values out vs)"

section \<open>The tool report\<close>

text \<open>
  The loop of \<^verbatim>\<open>check_tools\<close>: the line of a tool has the mark of its status and, for an
  available tool with a version, the version; printing it may raise. The function returns
  whether every required tool is available.
\<close>

fun check_tools_loop ::
  "os_exec \<Rightarrow> stdout_stream \<Rightarrow> string list \<Rightarrow> (string \<times> bool) list \<Rightarrow> string list \<Rightarrow> bool
     \<Rightarrow> py_error + bool" where
  "check_tools_loop exec out required_tools results [] all_required_available =
     Inr all_required_available"
| "check_tools_loop exec out required_tools results (tool # tools) all_required_available =
     (let is_required = (tool \<in> set required_tools);
          available = (case map_of results tool of None \<Rightarrow> False | Some b \<Rightarrow> b);
          version_str = (if available then get_tool_version exec tool else None)
      in if prints_marks out
            \<and> (case version_str of None \<Rightarrow> True | Some v \<Rightarrow> v = [] \<or> prints_text out v)
         then check_tools_loop exec out required_tools results tools
                (if is_required \<and> \<not> available then False else all_required_available)
         else Inl UnicodeEncodeError)"

definition check_tools :: "os_exec \<Rightarrow> stdout_stream \<Rightarrow> py_error + bool" where
  "check_tools exec out =
     (let tools = [''az'', ''azd'', ''bicep'', ''docker'', ''git''] in
      and_then (require_tools exec (Some tools)) (\<lambda>results.
        check_tools_loop exec out [''az'', ''azd'', ''bicep''] results tools True))"

section \<open>Validation of the infrastructure files\<close>

text \<open>
  The file system as the validation sees it: whether a path exists, and what
  \<^verbatim>\<open>infra_dir.glob("*.bicep")\<close> lists (\<open>None\<close> when the directory \<^verbatim>\<open>infra\<close> does not
  exist). \<^verbatim>\<open>bicep_validate\<close> prints the path of the file in each of its three messages,
  a mark in the two about the build, and the error output of a failed build when there is
  some.
\<close>

definition bicep_validate ::
  "os_exec \<Rightarrow> stdout_stream \<Rightarrow> (string \<Rightarrow> bool) \<Rightarrow> string \<Rightarrow> py_error + bool" where
  "bicep_validate exec out path_exists bicep_file =
     (if \<not> path_exists bicep_file
      then and_then (print_value out (PStr bicep_file)) (\<lambda>_. Inr False)
      else and_then
             (run exec [''az'', ''bicep'', ''build'', ''--file'', bicep_file, ''--stdout''] True False)
             (\<lambda>result.
                if \<not> (prints_marks out \<and> prints_value out (PStr bicep_file))
                then Inl UnicodeEncodeError
                else if returncode result = 0 then Inr True
                else (case stderr result of
                        None \<Rightarrow> Inr False
                      | Some err \<Rightarrow>
                          (if err \<noteq> [] \<and> \<not> prints_text out err then Inl UnicodeEncodeError
                           else Inr False))))"

fun validate_loop ::
  "os_exec \<Rightarrow> stdout_stream \<Rightarrow> (string \<Rightarrow> bool) \<Rightarrow> string list \<Rightarrow> bool \<Rightarrow> py_error + bool" where
  "validate_loop exec out path_exists [] all_valid = Inr all_valid"
| "validate_loop exec out path_exists (bicep_file # files) all_valid =
     and_then (bicep_validate exec out path_exists bicep_file) (\<lambda>valid.
       validate_loop exec out path_exists files (if \<not> valid then False else all_valid))"

definition validate_bicep_files ::
  "os_exec \<Rightarrow> stdout_stream \<Rightarrow> (string \<Rightarrow> bool) \<Rightarrow> string list option \<Rightarrow> py_error + bool" where
  "validate_bicep_files exec out path_exists infra_dir =
     (case infra_dir of
        None \<Rightarrow> Inr False
      | Some bicep_files \<Rightarrow>
          (if bicep_files = [] then Inr False
           else validate_loop exec out path_exists bicep_files True))"

section \<open>The report and the entry point\<close>

text \<open>
  \<^verbatim>\<open>f"{name:20s}"\<close>: the format code \<^verbatim>\<open>s\<close> is accepted for a string only; integers and
  booleans refuse it with \<^verbatim>\<open>ValueError\<close>, the other values with \<^verbatim>\<open>TypeError\<close>.
\<close>

fun format_20s :: "pyval \<Rightarrow> py_error + unit" where
  "format_20s (PStr s) = Inr ()"
| "format_20s (PInt i) = Inl ValueError"
| "format_20s (PBool b) = Inl ValueError"
| "format_20s _ = Inl TypeError"

text \<open>The loop over \<^verbatim>\<open>config.resources.items()\<close>: one line for every mapping entry.\<close>

fun print_resources :: "stdout_stream \<Rightarrow> (pyval \<times> pyval) list \<Rightarrow> py_error + unit" where
  "print_resources out [] = Inr ()"
| "print_resources out ((name, res_config) # items) =
     (case res_config of
        PDict kvs \<Rightarrow>
          and_then (format_20s name) (\<lambda>_.
          and_then (print_value out name) (\<lambda>_. print_resources out items))
      | _ \<Rightarrow> print_resources out items)"

text \<open>The loop over \<^verbatim>\<open>config.extra_params.items()\<close>: one line with the key and the value.\<close>

fun print_extra_params :: "stdout_stream \<Rightarrow> (string \<times> string) list \<Rightarrow> py_error + unit" where
  "print_extra_params out [] = Inr ()"
| "print_extra_params out ((key, val) # items) =
     and_then (print_values out [PStr key, PStr val]) (\<lambda>_. print_extra_params out items)"

text \<open>
  \<^verbatim>\<open>print_config\<close>, reduced to the calls in it that can raise, in their order: the lines
  with the subscription (when it is set), the location, the environment, the profile and
  the two resolved flags; the loop over the resources; the loop over the extra parameters;
  the call of \<^verbatim>\<open>build_infra_params\<close>. \<^verbatim>\<open>json.dumps\<close> escapes what is not ASCII and
  accepts every value of \<open>pyval\<close>.
\<close>

definition print_config :: "stdout_stream \<Rightarrow> OrchestratorConfig \<Rightarrow> py_error + unit" where
  "print_config out config =
     and_then (if truthy (subscription_id config) then print_value out (subscription_id config)
               else Inr ()) (\<lambda>_.
     and_then (print_values out
                 [location config, env_name config, profile config,
                  dry_run config, what_if config]) (\<lambda>_.
     and_then (dict_items (resources config)) (\<lambda>items.
     and_then (print_resources out items) (\<lambda>_.
     and_then (print_extra_params out (extra_params config)) (\<lambda>_.
     and_then (build_infra_params config) (\<lambda>params. Inr ()))))))"

text \<open>
  Everything outside the program that one run of \<^verbatim>\<open>main\<close> reads or writes: the outcome of
  \<^verbatim>\<open>load_env_file\<close>, whether the YAML parser is installed and what it makes of
  \<^verbatim>\<open>config.yaml\<close>, the operating system, the file system and the standard output.
\<close>

record world =
  env_file :: "py_error + (string \<times> string) list"
  has_yaml :: bool
  config_yaml :: "(py_error + pyval) option"
  os :: os_exec
  path_exists :: "string \<Rightarrow> bool"
  infra_dir :: "string list option"
  console :: stdout_stream

definition loaded_yaml :: "world \<Rightarrow> py_error + pyval" where
  "loaded_yaml w = load_yaml_config (has_yaml w) (config_yaml w)"

text \<open>
  \<^verbatim>\<open>main\<close>, after \<^verbatim>\<open>parse_args\<close>. The result is the list of the lines \<^verbatim>\<open>main\<close> itself
  has printed (the mode line and the closing note, not the reports of the functions it
  calls), and how the run ended: the status returned, or the exception that escaped.
\<close>

definition main :: "args \<Rightarrow> world \<Rightarrow> string list \<times> (py_error + int)" where
  "main a w =
     (case and_then (env_file w) (\<lambda>env_vars.
             and_then (loaded_yaml w) (\<lambda>yaml_config.
             and_then (resolve_config a env_vars yaml_config) (\<lambda>config.
             and_then (print_config (console w) config) (\<lambda>_. Inr config)))) of
        Inl e \<Rightarrow> ([], Inl e)
      | Inr config \<Rightarrow>
          (if truthy (dry_run config) then
             ([''Running in DRY-RUN mode - no changes will be made'' @ [CHR 0x0A]],
              and_then (check_tools (os w) (console w)) (\<lambda>_.
              and_then (validate_bicep_files (os w) (console w) (path_exists w) (infra_dir w)) (\<lambda>_.
              Inr 0)))
           else if truthy (what_if config) then
             (case and_then (check_tools (os w) (console w)) (\<lambda>_.
                     validate_bicep_files (os w) (console w) (path_exists w) (infra_dir w)) of
                Inl e \<Rightarrow> ([''Running in WHAT-IF mode - previewing changes'' @ [CHR 0x0A]], Inl e)
              | Inr _ \<Rightarrow>
                  ([''Running in WHAT-IF mode - previewing changes'' @ [CHR 0x0A],
                    ''Note: Actual what-if analysis requires Azure provisioning (not yet implemented)''],
                   Inr 0))
           else if apply_flag config then
             ([''APPLY mode requested'',
               ''Note: Actual provisioning not yet implemented (configuration and validation only)''],
              Inr 0)
           else if destroy config then
             ([''DESTROY mode requested'',
               ''Note: Actual resource destruction not yet implemented (configuration and validation only)''],
              Inr 0)
           else ([], Inr 0)))"

section \<open>Notions used to state the properties\<close>

text \<open>The namespace of a command line without any option.\<close>

definition no_args :: args where
  "no_args = \<lparr> arg_dry_run = False, arg_what_if = False, arg_apply = False, arg_destroy = False,
     arg_resources = False, arg_profile = None, arg_env = None, arg_location = None,
     arg_subscription = None, arg_set = None \<rparr>"

text \<open>
  What the structured file supplies: the value of a top-level section, and the value at a
  path \<open>section.key\<close>. Nothing is supplied when the document or the section is not a
  mapping, or the key is not in it.
\<close>

definition file_section :: "pyval \<Rightarrow> string \<Rightarrow> pyval option" where
  "file_section doc name = (case doc of PDict secs \<Rightarrow> map_of secs (PStr name) | _ \<Rightarrow> None)"

definition file_value :: "pyval \<Rightarrow> string \<Rightarrow> string \<Rightarrow> pyval option" where
  "file_value doc name key =
     (case file_section doc name of Some (PDict kvs) \<Rightarrow> map_of kvs (PStr key) | _ \<Rightarrow> None)"

text \<open>
  The value the code gives a scalar field: the command-line value when it is not empty,
  else the environment value when it is not empty, else the value of the file when the
  key is there (whatever it is), else the default.
\<close>

definition first_supplied :: "string option \<Rightarrow> string option \<Rightarrow> pyval option \<Rightarrow> pyval \<Rightarrow> pyval" where
  "first_supplied cli env file dflt =
     (if truthy (opt_str cli) then opt_str cli
      else if truthy (opt_str env) then opt_str env
      else (case file of Some v \<Rightarrow> v | None \<Rightarrow> dflt))"

text \<open>
  The rule in the words of the specification: the first non-empty value among the
  command line, the environment and the file, and the default when there is none.
\<close>

definition spec_first_nonempty :: "string option \<Rightarrow> string option \<Rightarrow> pyval option \<Rightarrow> pyval \<Rightarrow> pyval" where
  "spec_first_nonempty cli env file dflt =
     (case filter truthy [opt_str cli, opt_str env, (case file of Some v \<Rightarrow> v | None \<Rightarrow> PNone)] of
        v # _ \<Rightarrow> v
      | [] \<Rightarrow> dflt)"

text \<open>\<^verbatim>\<open>yaml_config.get(name, {})\<close> on a mapping.\<close>

definition section_of :: "(pyval \<times> pyval) list \<Rightarrow> string \<Rightarrow> pyval" where
  "section_of secs name = (case map_of secs (PStr name) of Some v \<Rightarrow> v | None \<Rightarrow> PDict [])"

text \<open>A configuration whose extra parameters name a key the builder emits itself.\<close>

definition override_config :: OrchestratorConfig where
  "override_config = \<lparr> subscription_id = PNone, location = PStr ''westus'', env_name = PStr ''dev'',
     profile = PStr ''default'', resources = default_resources, dry_run = PBool False,
     what_if = PBool False, apply_flag = False, destroy = False,
     extra_params = [(''location'', ''override-region'')] \<rparr>"

text \<open>The default configuration with one resource, named by a single underscore.\<close>

definition underscore_config :: OrchestratorConfig where
  "underscore_config = \<lparr> subscription_id = PNone, location = PStr ''eastus'', env_name = PStr ''dev'',
     profile = PStr ''default'',
     resources = PDict [(PStr ''_'', PDict [(PStr ''enabled'', PBool True)])],
     dry_run = PBool False, what_if = PBool False, apply_flag = False, destroy = False,
     extra_params = [] \<rparr>"

text \<open>
  The version check of a tool, as \<^verbatim>\<open>require_tools\<close> and \<^verbatim>\<open>get_tool_version\<close> both write
  it, and whether a command completes with exit status zero.
\<close>

definition version_command :: "string \<Rightarrow> string list" where
  "version_command tool =
     (if tool = ''bicep'' then [''az'', ''bicep'', ''version''] else [tool, ''--version''])"

definition exits_zero :: "os_exec \<Rightarrow> string list \<Rightarrow> bool" where
  "exits_zero os_run command =
     (case os_run command of Inr (rc, out, err) \<Rightarrow> rc = 0 | Inl e \<Rightarrow> False)"

text \<open>
  A system on which a program with the empty name cannot be started: as Linux does, it
  refuses the version check of the tool \<^verbatim>\<open>''\<close> with \<^verbatim>\<open>PermissionError\<close>; no other binary
  exists.
\<close>

definition empty_name_os :: os_exec where
  "empty_name_os command =
     (if command = [[], ''--version''] then Inl PermissionError else Inl FileNotFoundError)"

text \<open>
  The action selection in the words of the specification: the four flags in the order
  dry-run, what-if, apply, destroy, the first one that is true wins, and without any the
  configuration is only reported. \<open>mode_line\<close> is the line \<^verbatim>\<open>main\<close> prints first on the
  path of an action, \<open>action_lines\<close> all the lines it prints on that path when the path
  runs to its end; the report-only path prints nothing of its own.
\<close>

datatype action = DryRun | WhatIf | Apply | Destroy | ReportOnly

definition spec_select_action :: "bool \<Rightarrow> bool \<Rightarrow> bool \<Rightarrow> bool \<Rightarrow> action" where
  "spec_select_action dry whatif app des =
     (case filter fst [(dry, DryRun), (whatif, WhatIf), (app, Apply), (des, Destroy)] of
        [] \<Rightarrow> ReportOnly
      | (_, act) # _ \<Rightarrow> act)"

fun mode_line :: "action \<Rightarrow> string list" where
  "mode_line DryRun = [''Running in DRY-RUN mode - no changes will be made'' @ [CHR 0x0A]]"
| "mode_line WhatIf = [''Running in WHAT-IF mode - previewing changes'' @ [CHR 0x0A]]"
| "mode_line Apply = [''APPLY mode requested'']"
| "mode_line Destroy = [''DESTROY mode requested'']"
| "mode_line ReportOnly = []"

fun action_lines :: "action \<Rightarrow> string list" where
  "action_lines DryRun = [''Running in DRY-RUN mode - no changes will be made'' @ [CHR 0x0A]]"
| "action_lines WhatIf =
     [''Running in WHAT-IF mode - previewing changes'' @ [CHR 0x0A],
      ''Note: Actual what-if analysis requires Azure provisioning (not yet implemented)'']"
| "action_lines Apply =
     [''APPLY mode requested'',
      ''Note: Actual provisioning not yet implemented (configuration and validation only)'']"
| "action_lines Destroy =
     [''DESTROY mode requested'',
      ''Note: Actual resource destruction not yet implemented (configuration and validation only)'']"
| "action_lines ReportOnly = []"

text \<open>
  The command line with the four action flags all given; a standard output that encodes
  everything; a run where no file, no parser and no tool exists; and a run where the YAML
  parser is installed and \<^verbatim>\<open>config.yaml\<close> is the document \<^verbatim>\<open>azure:\<close> (a section without
  content, which YAML loads as null).
\<close>

definition all_flags :: args where
  "all_flags = no_args \<lparr> arg_dry_run := True, arg_what_if := True, arg_apply := True,
     arg_destroy := True \<rparr>"

definition unicode_stdout :: stdout_stream where
  "unicode_stdout = \<lparr> prints_value = (\<lambda>v. True), prints_text = (\<lambda>t. True), prints_marks = True \<rparr>"

definition bare_world :: world where
  "bare_world = \<lparr> env_file = Inr [], has_yaml = False, config_yaml = None,
     os = (\<lambda>command. Inl FileNotFoundError), path_exists = (\<lambda>path. False),
     infra_dir = None, console = unicode_stdout \<rparr>"

definition null_section_world :: world where
  "null_section_world = bare_world \<lparr> has_yaml := True,
     config_yaml := Some (Inr (PDict [(PStr ''azure'', PNone)])) \<rparr>"

section \<open>Auxiliary facts\<close>

lemma set_extra_param_fields [simp]:
  "subscription_id (set_extra_param p c) = subscription_id c"
  "location (set_extra_param p c) = location c"
  "env_name (set_extra_param p c) = env_name c"
  "profile (set_extra_param p c) = profile c"
  "resources (set_extra_param p c) = resources c"
  "dry_run (set_extra_param p c) = dry_run c"
  "what_if (set_extra_param p c) = what_if c"
  "apply_flag (set_extra_param p c) = apply_flag c"
  "destroy (set_extra_param p c) = destroy c"
  by (simp_all add: set_extra_param_def split: prod.splits)

lemma fold_set_extra_param_fields [simp]:
  "subscription_id (fold set_extra_param ps c) = subscription_id c"
  "location (fold set_extra_param ps c) = location c"
  "env_name (fold set_extra_param ps c) = env_name c"
  "profile (fold set_extra_param ps c) = profile c"
  "resources (fold set_extra_param ps c) = resources c"
  "dry_run (fold set_extra_param ps c) = dry_run c"
  "what_if (fold set_extra_param ps c) = what_if c"
  "apply_flag (fold set_extra_param ps c) = apply_flag c"
  "destroy (fold set_extra_param ps c) = destroy c"
  by (induction ps arbitrary: c; simp)+

lemma set_extra_params_fields [simp]:
  "subscription_id (set_extra_params s c) = subscription_id c"
  "location (set_extra_params s c) = location c"
  "env_name (set_extra_params s c) = env_name c"
  "profile (set_extra_params s c) = profile c"
  "resources (set_extra_params s c) = resources c"
  "dry_run (set_extra_params s c) = dry_run c"
  "what_if (set_extra_params s c) = what_if c"
  "apply_flag (set_extra_params s c) = apply_flag c"
  "destroy (set_extra_params s c) = destroy c"
  by (simp_all add: set_extra_params_def split: option.splits)

lemma post_init_fields [simp]:
  "subscription_id (post_init c) = subscription_id c"
  "location (post_init c) = location c"
  "env_name (post_init c) = env_name c"
  "profile (post_init c) = profile c"
  "dry_run (post_init c) = dry_run c"
  "what_if (post_init c) = what_if c"
  "apply_flag (post_init c) = apply_flag c"
  "destroy (post_init c) = destroy c"
  "extra_params (post_init c) = extra_params c"
  "resources (post_init c) = (if truthy (resources c) then resources c else default_resources)"
  by (simp_all add: post_init_def)

lemma and_then_Inr_iff: "and_then m f = Inr y \<longleftrightarrow> (\<exists>x. m = Inr x \<and> f x = Inr y)"
  by (cases m) (simp_all add: and_then_def)

lemma dict_get_Inr_iff: "dict_get d k dflt = Inr v \<longleftrightarrow> (\<exists>kvs. d = PDict kvs \<and> v = (case map_of kvs (PStr k) of Some x \<Rightarrow> x | None \<Rightarrow> dflt))"
  by (cases d) auto

lemma resolve_config_Inr:
  assumes "resolve_config a e y = Inr c"
  shows "\<exists>secs. y = PDict secs
     \<and> py_or (opt_str (arg_subscription a)) (py_or (opt_str (map_of e ''AZURE_SUBSCRIPTION_ID''))
          (dict_get (section_of secs ''azure'') ''subscription_id'' PNone)) = Inr (subscription_id c)
     \<and> py_or (opt_str (arg_location a)) (py_or (opt_str (map_of e ''AZURE_LOCATION''))
          (dict_get (section_of secs ''azure'') ''location'' (PStr ''eastus''))) = Inr (location c)
     \<and> py_or (opt_str (arg_env a)) (py_or (opt_str (map_of e ''AZURE_ENV_NAME''))
          (dict_get (section_of secs ''environment'') ''name'' (PStr ''dev''))) = Inr (env_name c)
     \<and> py_or (opt_str (arg_profile a)) (py_or (opt_str (map_of e ''PROFILE''))
          (dict_get (section_of secs ''environment'') ''profile'' (PStr ''default''))) = Inr (profile c)
     \<and> py_or (PBool (arg_dry_run a)) (dict_get (section_of secs ''deployment'') ''dry_run'' (PBool False)) = Inr (dry_run c)
     \<and> py_or (PBool (arg_what_if a)) (dict_get (section_of secs ''deployment'') ''what_if'' (PBool False)) = Inr (what_if c)
     \<and> resources c = (if truthy (section_of secs ''resources'') then section_of secs ''resources'' else default_resources)
     \<and> apply_flag c = arg_apply a \<and> destroy c = arg_destroy a"
proof -
  from assms obtain secs v1 v2 v3 v4 v5 v6 where y: "y = PDict secs"
    and v1: "py_or (opt_str (arg_subscription a)) (py_or (opt_str (map_of e ''AZURE_SUBSCRIPTION_ID''))
          (dict_get (section_of secs ''azure'') ''subscription_id'' PNone)) = Inr v1"
    and v2: "py_or (opt_str (arg_location a)) (py_or (opt_str (map_of e ''AZURE_LOCATION''))
          (dict_get (section_of secs ''azure'') ''location'' (PStr ''eastus''))) = Inr v2"
    and v3: "py_or (opt_str (arg_env a)) (py_or (opt_str (map_of e ''AZURE_ENV_NAME''))
          (dict_get (section_of secs ''environment'') ''name'' (PStr ''dev''))) = Inr v3"
    and v4: "py_or (opt_str (arg_profile a)) (py_or (opt_str (map_of e ''PROFILE''))
          (dict_get (section_of secs ''environment'') ''profile'' (PStr ''default''))) = Inr v4"
    and v5: "py_or (PBool (arg_dry_run a)) (dict_get (section_of secs ''deployment'') ''dry_run'' (PBool False)) = Inr v5"
    and v6: "py_or (PBool (arg_what_if a)) (dict_get (section_of secs ''deployment'') ''what_if'' (PBool False)) = Inr v6"
    and c: "c = set_extra_params (arg_set a) (post_init
        \<lparr> subscription_id = v1, location = v2, env_name = v3, profile = v4,
          resources = section_of secs ''resources'', dry_run = v5, what_if = v6,
          apply_flag = arg_apply a, destroy = arg_destroy a, extra_params = [] \<rparr>)"
    unfolding resolve_config_def and_then_Inr_iff dict_get_Inr_iff section_of_def
    by (elim exE conjE) (simp split del: if_split)
  show ?thesis
    unfolding c using y v1 v2 v3 v4 v5 v6 by simp
qed

lemma resolve_config_returns:
  assumes "dict_get (section_of secs ''azure'') k1 d1 = Inr x1"
      and "dict_get (section_of secs ''environment'') k2 d2 = Inr x2"
      and "dict_get (section_of secs ''deployment'') k3 d3 = Inr x3"
  shows "\<exists>c. resolve_config a e (PDict secs) = Inr c"
proof -
  from assms obtain s1 s2 s3 where "section_of secs ''azure'' = PDict s1"
    "section_of secs ''environment'' = PDict s2" "section_of secs ''deployment'' = PDict s3"
    by (auto simp: dict_get_Inr_iff)
  then show ?thesis
    by (simp add: resolve_config_def and_then_def py_or_def section_of_def)
qed

section \<open>Configuration resolution\<close>

lemma py_or_chain:
  assumes "py_or (opt_str cli) (py_or (opt_str env) (dict_get (section_of secs name) key dflt)) = Inr v"
  shows "v = first_supplied cli env (file_value (PDict secs) name key) dflt"
proof (cases "truthy (opt_str cli) \<or> truthy (opt_str env)")
  case True
  with assms show ?thesis by (auto simp: py_or_def first_supplied_def)
next
  case False
  with assms have "dict_get (section_of secs name) key dflt = Inr v"
    by (simp add: py_or_def)
  then obtain kvs where "section_of secs name = PDict kvs"
    and v: "v = (case map_of kvs (PStr key) of Some x \<Rightarrow> x | None \<Rightarrow> dflt)"
    by (auto simp: dict_get_Inr_iff)
  then have "file_value (PDict secs) name key = map_of kvs (PStr key)"
    by (auto simp: file_value_def file_section_def section_of_def split: option.splits)
  with False v show ?thesis by (simp add: first_supplied_def)
qed

lemma py_or_flag:
  assumes "py_or (PBool b) (dict_get (section_of secs name) key (PBool False)) = Inr v"
  shows "v = (if b then PBool True
              else (case file_value (PDict secs) name key of Some x \<Rightarrow> x | None \<Rightarrow> PBool False))"
proof (cases b)
  case True
  with assms show ?thesis by (simp add: py_or_def)
next
  case False
  with assms have "dict_get (section_of secs name) key (PBool False) = Inr v"
    by (simp add: py_or_def)
  then obtain kvs where "section_of secs name = PDict kvs"
    and v: "v = (case map_of kvs (PStr key) of Some x \<Rightarrow> x | None \<Rightarrow> PBool False)"
    by (auto simp: dict_get_Inr_iff)
  then have "file_value (PDict secs) name key = map_of kvs (PStr key)"
    by (auto simp: file_value_def file_section_def section_of_def split: option.splits)
  with False v show ?thesis by simp
qed

text \<open>
  Claim C1, as the code has it. Whenever \<^verbatim>\<open>resolve_config\<close> returns a configuration, each
  of the four scalar fields is the command-line value when that is not empty, else the
  environment value under the field's key when that is not empty, else the value of the
  structured file at the field's path when the key is present there (taken as it is, also
  when it is empty), else the field's default. Each field is a function of its own four
  sources only, and a non-empty command-line value decides it.
\<close>

theorem resolve_config_precedence:
  assumes "resolve_config a env_vars yaml_config = Inr c"
  shows "subscription_id c =
           first_supplied (arg_subscription a) (map_of env_vars ''AZURE_SUBSCRIPTION_ID'')
             (file_value yaml_config ''azure'' ''subscription_id'') PNone
       \<and> location c =
           first_supplied (arg_location a) (map_of env_vars ''AZURE_LOCATION'')
             (file_value yaml_config ''azure'' ''location'') (PStr ''eastus'')
       \<and> env_name c =
           first_supplied (arg_env a) (map_of env_vars ''AZURE_ENV_NAME'')
             (file_value yaml_config ''environment'' ''name'') (PStr ''dev'')
       \<and> profile c =
           first_supplied (arg_profile a) (map_of env_vars ''PROFILE'')
             (file_value yaml_config ''environment'' ''profile'') (PStr ''default'')"
proof -
  from resolve_config_Inr [OF assms] obtain secs where y: "yaml_config = PDict secs"
    and f: "py_or (opt_str (arg_subscription a)) (py_or (opt_str (map_of env_vars ''AZURE_SUBSCRIPTION_ID''))
          (dict_get (section_of secs ''azure'') ''subscription_id'' PNone)) = Inr (subscription_id c)"
     "py_or (opt_str (arg_location a)) (py_or (opt_str (map_of env_vars ''AZURE_LOCATION''))
          (dict_get (section_of secs ''azure'') ''location'' (PStr ''eastus''))) = Inr (location c)"
     "py_or (opt_str (arg_env a)) (py_or (opt_str (map_of env_vars ''AZURE_ENV_NAME''))
          (dict_get (section_of secs ''environment'') ''name'' (PStr ''dev''))) = Inr (env_name c)"
     "py_or (opt_str (arg_profile a)) (py_or (opt_str (map_of env_vars ''PROFILE''))
          (dict_get (section_of secs ''environment'') ''profile'' (PStr ''default''))) = Inr (profile c)"
    by blast
  show ?thesis
    unfolding y using f [THEN py_or_chain] by simp
qed

theorem resolve_config_precedence_witness:
  "resolve_config (no_args\<lparr>arg_location := Some ''westus2''\<rparr>)
       [(''AZURE_LOCATION'', ''centralus''), (''AZURE_ENV_NAME'', ''staging'')]
       (PDict [(PStr ''azure'', PDict [(PStr ''location'', PStr ''northeurope'')]),
               (PStr ''environment'', PDict [(PStr ''profile'', PStr [])])])
     = Inr \<lparr> subscription_id = PNone, location = PStr ''westus2'', env_name = PStr ''staging'',
             profile = PStr [], resources = default_resources, dry_run = PBool False,
             what_if = PBool False, apply_flag = False, destroy = False, extra_params = [] \<rparr>
   \<and> first_supplied (Some ''westus2'') (Some ''centralus'') (Some (PStr ''northeurope'')) (PStr ''eastus'')
       = PStr ''westus2''"
proof -
  have r: "resolve_config (no_args\<lparr>arg_location := Some ''westus2''\<rparr>)
       [(''AZURE_LOCATION'', ''centralus''), (''AZURE_ENV_NAME'', ''staging'')]
       (PDict [(PStr ''azure'', PDict [(PStr ''location'', PStr ''northeurope'')]),
               (PStr ''environment'', PDict [(PStr ''profile'', PStr [])])])
     = Inr \<lparr> subscription_id = PNone, location = PStr ''westus2'', env_name = PStr ''staging'',
             profile = PStr [], resources = default_resources, dry_run = PBool False,
             what_if = PBool False, apply_flag = False, destroy = False, extra_params = [] \<rparr>"
    by (simp add: resolve_config_def no_args_def and_then_def py_or_def opt_str_def
        post_init_def set_extra_params_def)
  from resolve_config_precedence [OF r] show ?thesis
    using r by (simp add: file_value_def file_section_def)
qed

text \<open>
  The claim as stated fails where the file has the key with an empty value: no command-line
  value, no environment value, and \<^verbatim>\<open>azure.location\<close> the empty string. The first
  non-empty value in the stated order is the default \<^verbatim>\<open>eastus\<close>; the code resolves the
  empty string.
\<close>

theorem resolve_config_empty_file_value:
  "map_sum id location
     (resolve_config no_args [] (PDict [(PStr ''azure'', PDict [(PStr ''location'', PStr [])])]))
   = Inr (PStr [])
   \<and> spec_first_nonempty (arg_location no_args) (map_of [] ''AZURE_LOCATION'')
       (file_value (PDict [(PStr ''azure'', PDict [(PStr ''location'', PStr [])])]) ''azure'' ''location'')
       (PStr ''eastus'')
     = PStr ''eastus''"
  by (simp add: resolve_config_def no_args_def and_then_def py_or_def opt_str_def
      post_init_def set_extra_params_def spec_first_nonempty_def file_value_def file_section_def)


text \<open>
  Claim C2, as the code has it. Whenever \<^verbatim>\<open>resolve_config\<close> returns a configuration, its
  \<^verbatim>\<open>resources\<close> field is the \<^verbatim>\<open>resources\<close> block of the structured file, unchanged, when
  the block is present and not empty (truthy), and the built-in set of four entries when
  the block is absent or empty (falsy: an empty mapping, null, an empty sequence).
\<close>

theorem resolve_config_resources:
  assumes "resolve_config a env_vars yaml_config = Inr c"
  shows "resources c =
           (case file_section yaml_config ''resources'' of
              Some block \<Rightarrow> if truthy block then block else default_resources
            | None \<Rightarrow> default_resources)"
proof -
  from resolve_config_Inr [OF assms] obtain secs where y: "yaml_config = PDict secs"
    and r: "resources c = (if truthy (section_of secs ''resources'')
                           then section_of secs ''resources'' else default_resources)"
    by blast
  show ?thesis
    unfolding y r by (simp add: file_section_def section_of_def split: option.splits)
qed

theorem resolve_config_resources_witness:
  "resolve_config no_args []
     (PDict [(PStr ''resources'', PDict [(PStr ''sales_catalog'', PDict [(PStr ''sku'', PStr ''S1'')])])])
     = Inr \<lparr> subscription_id = PNone, location = PStr ''eastus'', env_name = PStr ''dev'',
             profile = PStr ''default'',
             resources = PDict [(PStr ''sales_catalog'', PDict [(PStr ''sku'', PStr ''S1'')])],
             dry_run = PBool False, what_if = PBool False, apply_flag = False, destroy = False,
             extra_params = [] \<rparr>"
proof -
  have "\<exists>c. resolve_config no_args []
     (PDict [(PStr ''resources'', PDict [(PStr ''sales_catalog'', PDict [(PStr ''sku'', PStr ''S1'')])])])
     = Inr c"
    by (rule resolve_config_returns) (simp_all add: section_of_def)
  then obtain c where c: "resolve_config no_args []
     (PDict [(PStr ''resources'', PDict [(PStr ''sales_catalog'', PDict [(PStr ''sku'', PStr ''S1'')])])])
     = Inr c" ..
  from resolve_config_resources [OF c]
  have "resources c = PDict [(PStr ''sales_catalog'', PDict [(PStr ''sku'', PStr ''S1'')])]"
    by (simp add: file_section_def)
  with c show ?thesis
    by (simp add: resolve_config_def no_args_def and_then_def py_or_def opt_str_def
        post_init_def set_extra_params_def)
qed

text \<open>
  The claim as stated fails for a block that is present and empty: \<^verbatim>\<open>resources: {}\<close>
  is not copied, \<^verbatim>\<open>__post_init__\<close> installs the built-in set in its place.
\<close>

theorem resolve_config_empty_resources_block:
  "file_section (PDict [(PStr ''resources'', PDict [])]) ''resources'' = Some (PDict [])
   \<and> map_sum id resources (resolve_config no_args [] (PDict [(PStr ''resources'', PDict [])]))
       = Inr default_resources
   \<and> default_resources \<noteq> PDict []"
  by (simp add: resolve_config_def no_args_def and_then_def py_or_def opt_str_def
      post_init_def set_extra_params_def file_section_def default_resources_def)

text \<open>
  Claim C9. The \<^verbatim>\<open>--resources\<close> flag does not reach the result: with every other input
  the same, \<^verbatim>\<open>resolve_config\<close> gives the same outcome whatever the flag is set to, so the
  \<^verbatim>\<open>resources\<close> field comes from the structured file either way.
\<close>

theorem resources_flag_display_only:
  "resolve_config (a\<lparr>arg_resources := b\<rparr>) env_vars yaml_config
     = resolve_config a env_vars yaml_config"
  by (simp add: resolve_config_def)



text \<open>
  Claim C10. The resolved \<^verbatim>\<open>apply\<close> and \<^verbatim>\<open>destroy\<close> are the command-line flags, whatever
  the environment mapping and the structured file hold; \<^verbatim>\<open>dry_run\<close> and \<^verbatim>\<open>what_if\<close> are
  the Python disjunction of the command-line flag and the file's \<^verbatim>\<open>deployment.dry_run\<close>
  or \<^verbatim>\<open>deployment.what_if\<close> (false when the key is absent).
\<close>

theorem resolve_config_flags:
  assumes "resolve_config a env_vars yaml_config = Inr c"
  shows "apply_flag c = arg_apply a \<and> destroy c = arg_destroy a
       \<and> dry_run c = (if arg_dry_run a then PBool True
                      else (case file_value yaml_config ''deployment'' ''dry_run'' of
                              Some v \<Rightarrow> v | None \<Rightarrow> PBool False))
       \<and> what_if c = (if arg_what_if a then PBool True
                      else (case file_value yaml_config ''deployment'' ''what_if'' of
                              Some v \<Rightarrow> v | None \<Rightarrow> PBool False))
       \<and> truthy (dry_run c) =
           (arg_dry_run a \<or> truthy (case file_value yaml_config ''deployment'' ''dry_run'' of
                                       Some v \<Rightarrow> v | None \<Rightarrow> PBool False))
       \<and> truthy (what_if c) =
           (arg_what_if a \<or> truthy (case file_value yaml_config ''deployment'' ''what_if'' of
                                       Some v \<Rightarrow> v | None \<Rightarrow> PBool False))"
proof -
  from resolve_config_Inr [OF assms] obtain secs where y: "yaml_config = PDict secs"
    and f: "py_or (PBool (arg_dry_run a)) (dict_get (section_of secs ''deployment'') ''dry_run'' (PBool False)) = Inr (dry_run c)"
      "py_or (PBool (arg_what_if a)) (dict_get (section_of secs ''deployment'') ''what_if'' (PBool False)) = Inr (what_if c)"
    and g: "apply_flag c = arg_apply a" "destroy c = arg_destroy a"
    by blast
  show ?thesis
    unfolding y using f [THEN py_or_flag] g by simp
qed

theorem resolve_config_flags_witness:
  "resolve_config (no_args\<lparr>arg_destroy := True\<rparr>)
       [(''APPLY'', ''true''), (''DRY_RUN'', ''true'')]
       (PDict [(PStr ''deployment'',
                PDict [(PStr ''apply'', PBool True), (PStr ''what_if'', PBool True)])])
     = Inr \<lparr> subscription_id = PNone, location = PStr ''eastus'', env_name = PStr ''dev'',
             profile = PStr ''default'', resources = default_resources,
             dry_run = PBool False, what_if = PBool True, apply_flag = False, destroy = True,
             extra_params = [] \<rparr>"
proof -
  let ?r = "resolve_config (no_args\<lparr>arg_destroy := True\<rparr>)
       [(''APPLY'', ''true''), (''DRY_RUN'', ''true'')]
       (PDict [(PStr ''deployment'',
                PDict [(PStr ''apply'', PBool True), (PStr ''what_if'', PBool True)])])"
  have "\<exists>c. ?r = Inr c"
    by (rule resolve_config_returns) (simp_all add: section_of_def)
  then obtain c where c: "?r = Inr c" ..
  from resolve_config_flags [OF c]
  have "apply_flag c = False" "destroy c = True" "what_if c = PBool True" "dry_run c = PBool False"
    by (simp_all add: no_args_def file_value_def file_section_def)
  with c show ?thesis
    by (simp add: resolve_config_def no_args_def and_then_def py_or_def opt_str_def
        post_init_def set_extra_params_def)
qed

section \<open>The parameter builder: properties\<close>

lemma update_params_other:
  "k \<notin> fst ` set extra \<Longrightarrow> map_of (update_params extra params) k = map_of params k"
  unfolding update_params_def
  by (induction extra arbitrary: params) (auto simp: update_conv')

lemma update_params_member:
  "distinct (map fst extra) \<Longrightarrow> (k, v) \<in> set extra \<Longrightarrow>
     map_of (update_params extra params) k = Some (PStr v)"
proof (induction extra arbitrary: params)
  case Nil
  then show ?case by simp
next
  case (Cons x xs)
  show ?case
  proof (cases "(k, v) = x")
    case True
    with Cons.prems have "k \<notin> fst ` set xs" by force
    from update_params_other [OF this]
    have "map_of (update_params xs (AList.update (fst x) (PStr (snd x)) params)) k
            = map_of (AList.update (fst x) (PStr (snd x)) params) k" .
    with True show ?thesis
      by (auto simp: update_params_def update_conv')
  next
    case False
    with Cons.prems have "(k, v) \<in> set xs" "distinct (map fst xs)" by auto
    from Cons.IH [OF this(2) this(1)] show ?thesis
      by (simp add: update_params_def)
  qed
qed

text \<open>
  Claim C4. The extra parameters are merged last: in the dictionary \<^verbatim>\<open>build_infra_params\<close>
  returns, every key of \<^verbatim>\<open>extra_params\<close> maps to the value \<^verbatim>\<open>extra_params\<close> gives it, also
  when the builder had emitted the same key (\<^verbatim>\<open>location\<close>, \<^verbatim>\<open>environmentName\<close>, a
  \<^verbatim>\<open>...Sku\<close> parameter) from the configuration's own fields. The keys of a dictionary are
  distinct, which is the second premise.
\<close>

theorem extra_params_win:
  assumes "build_infra_params config = Inr params"
    and "distinct (map fst (extra_params config))"
    and "(k, v) \<in> set (extra_params config)"
  shows "map_of params k = Some (PStr v)"
proof -
  from assms(1) obtain ps where "params = update_params (extra_params config) ps"
    by (auto simp: build_infra_params_def and_then_Inr_iff Let_def)
  with update_params_member [OF assms(2,3)] show ?thesis by simp
qed

theorem extra_params_win_witness:
  "build_infra_params override_config
     = Inr [(''location'', PStr ''override-region''), (''environmentName'', PStr ''dev'')]
   \<and> map_of [(''location'', PStr ''override-region''), (''environmentName'', PStr ''dev'')] ''location''
       = Some (PStr ''override-region'')"
proof -
  have b: "build_infra_params override_config
     = Inr [(''location'', PStr ''override-region''), (''environmentName'', PStr ''dev'')]"
    by code_simp
  from extra_params_win [OF b, of "''location''" "''override-region''"]
  show ?thesis using b by (simp add: override_config_def)
qed

text \<open>The extra parameters \<^verbatim>\<open>resolve_config\<close> builds have distinct keys.\<close>

lemma set_extra_params_distinct:
  "distinct (map fst (extra_params c)) \<Longrightarrow> distinct (map fst (extra_params (set_extra_params s c)))"
proof -
  have step: "\<And>p c. distinct (map fst (extra_params c)) \<Longrightarrow>
      distinct (map fst (extra_params (set_extra_param p c)))"
    by (simp add: set_extra_param_def distinct_update split: prod.splits)
  have "\<And>c. distinct (map fst (extra_params c)) \<Longrightarrow>
      distinct (map fst (extra_params (fold set_extra_param ps c)))" for ps
    by (induction ps) (simp_all add: step)
  then show "distinct (map fst (extra_params c)) \<Longrightarrow> ?thesis"
    by (simp add: set_extra_params_def split: option.splits)
qed

lemma resolve_config_extra_distinct:
  "resolve_config a e y = Inr c \<Longrightarrow> distinct (map fst (extra_params c))"
  by (auto simp: resolve_config_def and_then_Inr_iff intro!: set_extra_params_distinct)

text \<open>
  Claim C3 says that an entry without \<^verbatim>\<open>sku\<close> contributes nothing and never causes a
  failure. The builder computes the parameter name of every enabled mapping entry before it
  looks for \<^verbatim>\<open>sku\<close>, and \<^verbatim>\<open>param_name[0]\<close> raises \<^verbatim>\<open>IndexError\<close> when the name has no
  character other than the underscore: the entry \<^verbatim>\<open>"_": {"enabled": True}\<close> makes
  \<^verbatim>\<open>build_infra_params\<close> fail.
\<close>

theorem build_infra_params_underscore_name:
  "build_infra_params underscore_config = Inl IndexError"
  by code_simp

text \<open>The names on which the name transformation fails are exactly the runs of underscores.\<close>

lemma capitalize_Nil_iff: "capitalize w = [] \<longleftrightarrow> w = []"
  by (cases w) (simp_all add: capitalize_def)

lemma split_on_all_empty: "(\<forall>w \<in> set (split_on sep s). w = []) \<longleftrightarrow> set s \<subseteq> {sep}"
  by (induction s) (auto split: list.splits)

lemma camel_name_fails_iff: "camel_name name = Inl IndexError \<longleftrightarrow> set name \<subseteq> {CHR ''_''}"
proof -
  define joined where "joined = concat (map capitalize (split_on CHR ''_'' name))"
  have "joined = [] \<longleftrightarrow> (\<forall>w \<in> set (split_on CHR ''_'' name). w = [])"
    by (auto simp: joined_def capitalize_Nil_iff)
  then have j: "joined = [] \<longleftrightarrow> set name \<subseteq> {CHR ''_''}"
    by (simp only: split_on_all_empty)
  have "camel_name name = Inl IndexError \<longleftrightarrow> joined = []"
    by (cases joined) (simp_all add: camel_name_def joined_def [symmetric])
  with j show ?thesis by simp
qed

text \<open>
  What one entry contributes: nothing when its value is not a mapping; when it is one and
  the name transforms, the \<^verbatim>\<open>Sku\<close> parameter exactly when the entry is enabled and has
  the key \<^verbatim>\<open>sku\<close>.
\<close>

lemma resource_param_not_mapping:
  "\<forall>kvs. resource_config \<noteq> PDict kvs \<Longrightarrow>
     resource_param (resource_name, resource_config) params = Inr params"
  by (cases resource_config) (auto simp: resource_param_def)

lemma resource_param_mapping:
  "camel_name name = Inr param_name \<Longrightarrow>
   resource_param (PStr name, PDict kvs) params =
     Inr (if truthy (case map_of kvs (PStr ''enabled'') of Some v \<Rightarrow> v | None \<Rightarrow> PBool True)
          then (case map_of kvs (PStr ''sku'') of
                  Some sku \<Rightarrow> AList.update (param_name @ ''Sku'') sku params
                | None \<Rightarrow> params)
          else params)"
  by (simp add: resource_param_def and_then_def)

section \<open>The tool inspector: properties\<close>

lemma run_no_check:
  assumes "command \<noteq> []" and "\<forall>e. os_run command = Inl e \<longrightarrow> e = FileNotFoundError"
  shows "run os_run command True False =
           Inr (case os_run command of
                  Inr (rc, out, err) \<Rightarrow> \<lparr> returncode = rc, stdout = Some out, stderr = Some err \<rparr>
                | Inl e \<Rightarrow> \<lparr> returncode = 127, stdout = Some [],
                            stderr = Some (codes ''Command not found: '' @ codes (hd command)) \<rparr>)"
proof (cases "os_run command")
  case (Inl e)
  with assms(2) have "os_run command = Inl FileNotFoundError" by simp
  with assms(1) show ?thesis
    by (cases command) (simp_all add: run_def subprocess_run_def and_then_def)
next
  case (Inr r)
  then show ?thesis
    by (cases r) (simp add: run_def subprocess_run_def and_then_def)
qed

lemma returncode_run:
  assumes "command \<noteq> []" and "\<forall>e. os_run command = Inl e \<longrightarrow> e = FileNotFoundError"
  shows "\<exists>result. run os_run command True False = Inr result
           \<and> (returncode result = 0) = exits_zero os_run command"
  unfolding run_no_check [of command os_run, OF assms] exits_zero_def
  by (auto split: sum.splits)

lemma require_tool_result:
  assumes "\<forall>e. os_run (version_command tool) = Inl e \<longrightarrow> e = FileNotFoundError"
  shows "require_tool os_run tool results =
           Inr (AList.update tool (exits_zero os_run (version_command tool)) results)"
proof -
  have ne: "version_command tool \<noteq> []" by (simp add: version_command_def)
  from returncode_run [of "version_command tool" os_run, OF ne assms] obtain result
    where "run os_run (version_command tool) True False = Inr result"
      and "(returncode result = 0) = exits_zero os_run (version_command tool)" by blast
  then show ?thesis
    by (auto simp: require_tool_def version_command_def and_then_def)
qed

lemma require_tools_loop_result:
  assumes "\<forall>tool \<in> set tools. \<forall>e. os_run (version_command tool) = Inl e \<longrightarrow> e = FileNotFoundError"
  shows "require_tools_loop os_run tools results =
           Inr (fold (\<lambda>tool. AList.update tool (exits_zero os_run (version_command tool))) tools results)"
  using assms
proof (induction tools arbitrary: results)
  case Nil
  then show ?case by simp
next
  case (Cons tool tools)
  then have "require_tool os_run tool results =
           Inr (AList.update tool (exits_zero os_run (version_command tool)) results)"
    by (intro require_tool_result) simp
  with Cons show ?case by (simp add: and_then_def)
qed

lemma map_of_fold_update:
  "map_of (fold (\<lambda>k. AList.update k (f k)) ks al) k =
     (if k \<in> set ks then Some (f k) else map_of al k)"
  by (induction ks arbitrary: al) (auto simp: update_conv')

lemma first_of_split_on:
  "(case split_on sep s of [] \<Rightarrow> None | l # _ \<Rightarrow> Some l) = Some (takeWhile (\<lambda>c. c \<noteq> sep) s)"
  by (induction s) (auto split: list.splits)

lemma get_tool_version_via_run:
  "get_tool_version os_run tool =
          (case run os_run (version_command tool) True False of
             Inl e \<Rightarrow> None
           | Inr result \<Rightarrow>
               (if returncode result = 0
                then (case stdout result of
                        None \<Rightarrow> None
                      | Some out \<Rightarrow>
                          (if strip out \<noteq> []
                           then Some (takeWhile (\<lambda>c. c \<noteq> 10) (strip out)) else None))
                else None))"
  by (auto simp: get_tool_version_def version_command_def Let_def first_of_split_on
      split: sum.splits option.splits)

text \<open>
  What the two probes give when starting the version check either finds no binary
  (\<^verbatim>\<open>FileNotFoundError\<close>) or the check completes and its output decodes:
  \<^verbatim>\<open>require_tools\<close> records whether the exit status is zero, and \<^verbatim>\<open>get_tool_version\<close>
  returns the first line of the stripped output of a check that exits with zero.
\<close>

lemma get_tool_version_result:
  assumes "\<forall>e. os_run (version_command tool) = Inl e \<longrightarrow> e = FileNotFoundError"
  shows "get_tool_version os_run tool =
           (case os_run (version_command tool) of
              Inr (rc, out, err) \<Rightarrow>
                if rc = 0 \<and> strip out \<noteq> []
                then Some (takeWhile (\<lambda>c. c \<noteq> 10) (strip out)) else None
            | Inl e \<Rightarrow> None)"
proof -
  have ne: "version_command tool \<noteq> []" by (simp add: version_command_def)
  show ?thesis
    unfolding get_tool_version_via_run run_no_check [of "version_command tool" os_run, OF ne assms]
    by (auto split: sum.splits)
qed

lemma require_tools_result:
  assumes "\<forall>tool \<in> set tools. \<forall>e. os_run (version_command tool) = Inl e \<longrightarrow> e = FileNotFoundError"
  shows "\<exists>results. require_tools os_run (Some tools) = Inr results
            \<and> (\<forall>tool \<in> set tools.
                  map_of results tool = Some (exits_zero os_run (version_command tool)))"
  using require_tools_loop_result [OF assms, of "[]"]
  by (simp add: require_tools_def map_of_fold_update)

text \<open>\<^verbatim>\<open>get_tool_version\<close> returns none whatever exception starting the check raises.\<close>

lemma run_raise:
  assumes "os_run command = Inl e"
  shows "case e of FileNotFoundError \<Rightarrow> True | CalledProcessError rc so se \<Rightarrow> True
         | _ \<Rightarrow> run os_run command True False = Inl e"
  using assms by (cases e) (simp_all add: run_def subprocess_run_def and_then_def)

lemma get_tool_version_raise:
  assumes "os_run (version_command tool) = Inl e"
  shows "case e of CalledProcessError rc so se \<Rightarrow> True | _ \<Rightarrow> get_tool_version os_run tool = None"
proof (cases "e = FileNotFoundError")
  case True
  with assms get_tool_version_result [of os_run tool] show ?thesis by simp
next
  case False
  with run_raise [of os_run "version_command tool" e, OF assms] show ?thesis
    by (cases e) (simp_all add: get_tool_version_via_run)
qed

text \<open>
  Claim C7 says that probing any tool name never raises and that a check which cannot be
  run is recorded as not available. \<^verbatim>\<open>run\<close> turns only \<^verbatim>\<open>FileNotFoundError\<close> (and
  \<^verbatim>\<open>CalledProcessError\<close>) into a result, and \<^verbatim>\<open>require_tools\<close> has no handler of its
  own: for the tool name \<^verbatim>\<open>''\<close> starting the check raises \<^verbatim>\<open>PermissionError\<close>, which
  escapes \<^verbatim>\<open>require_tools\<close>. \<^verbatim>\<open>get_tool_version\<close>, whose body is inside
  \<^verbatim>\<open>try ... except Exception\<close>, returns none on the same probe.
\<close>

theorem require_tools_empty_name:
  "require_tools empty_name_os (Some [[]]) = Inl PermissionError
   \<and> get_tool_version empty_name_os [] = None"
  by (simp add: require_tools_def require_tool_def get_tool_version_def run_def
      subprocess_run_def and_then_def empty_name_os_def)

text \<open>
  The version is the first line of the stripped output: on output that starts with a blank
  line it is the second line of the output.
\<close>

lemma get_tool_version_blank_first_line:
  "get_tool_version (\<lambda>command. Inr (0, [10] @ codes ''git version 2.43.0'', [])) ''git''
     = Some (codes ''git version 2.43.0'')"
  by code_simp

section \<open>The entry point: properties\<close>

lemma main_resolved:
  assumes "env_file w = Inr env_vars"
    and "loaded_yaml w = Inr yaml_config"
    and "resolve_config a env_vars yaml_config = Inr config"
    and "print_config (console w) config = Inr ()"
  shows "main a w =
          (if truthy (dry_run config) then
             ([''Running in DRY-RUN mode - no changes will be made'' @ [CHR 0x0A]],
              and_then (check_tools (os w) (console w)) (\<lambda>_.
              and_then (validate_bicep_files (os w) (console w) (path_exists w) (infra_dir w)) (\<lambda>_.
              Inr 0)))
           else if truthy (what_if config) then
             (case and_then (check_tools (os w) (console w)) (\<lambda>_.
                     validate_bicep_files (os w) (console w) (path_exists w) (infra_dir w)) of
                Inl e \<Rightarrow> ([''Running in WHAT-IF mode - previewing changes'' @ [CHR 0x0A]], Inl e)
              | Inr _ \<Rightarrow>
                  ([''Running in WHAT-IF mode - previewing changes'' @ [CHR 0x0A],
                    ''Note: Actual what-if analysis requires Azure provisioning (not yet implemented)''],
                   Inr 0))
           else if apply_flag config then
             ([''APPLY mode requested'',
               ''Note: Actual provisioning not yet implemented (configuration and validation only)''],
              Inr 0)
           else if destroy config then
             ([''DESTROY mode requested'',
               ''Note: Actual resource destruction not yet implemented (configuration and validation only)''],
              Inr 0)
           else ([], Inr 0))"
  unfolding main_def using assms by (simp add: and_then_def)

lemma action_lines_disjoint:
  "x \<noteq> y \<Longrightarrow> set (action_lines x) \<inter> set (action_lines y) = {}"
  by (cases x; cases y) simp_all

lemma mode_line_prefix: "set (mode_line x) \<subseteq> set (action_lines x)"
  by (cases x) simp_all

text \<open>
  Claim C5. Once the configuration is resolved and reported, \<^verbatim>\<open>main\<close> takes the path of
  the first flag that is true in the order dry-run, what-if, apply, destroy, whatever the
  later flags are, and the report-only path when none is. It prints the mode line of that
  action first, and nothing else but the closing note of the same action (all the lines of
  the action when the run ends with status 0); it prints no line of any other action. On
  the dry-run and the what-if path the tool report and the validation run and decide how
  the run ends; the other paths end with status 0 whatever those two would do.
\<close>

theorem main_action_priority:
  assumes "env_file w = Inr env_vars"
    and "loaded_yaml w = Inr yaml_config"
    and "resolve_config a env_vars yaml_config = Inr config"
    and "print_config (console w) config = Inr ()"
  shows "(let act = spec_select_action (truthy (dry_run config)) (truthy (what_if config))
                      (apply_flag config) (destroy config);
              checks = and_then (check_tools (os w) (console w)) (\<lambda>_.
                       and_then (validate_bicep_files (os w) (console w) (path_exists w)
                                   (infra_dir w)) (\<lambda>_. Inr 0))
          in take 1 (fst (main a w)) = mode_line act
           \<and> (fst (main a w) = mode_line act \<or> fst (main a w) = action_lines act)
           \<and> (snd (main a w) = Inr 0 \<longrightarrow> fst (main a w) = action_lines act)
           \<and> (\<forall>other. other \<noteq> act \<longrightarrow> set (fst (main a w)) \<inter> set (action_lines other) = {})
           \<and> (act = DryRun \<or> act = WhatIf \<longrightarrow> snd (main a w) = checks)
           \<and> (act = Apply \<or> act = Destroy \<or> act = ReportOnly \<longrightarrow> snd (main a w) = Inr 0))"
proof -
  define act where "act = spec_select_action (truthy (dry_run config)) (truthy (what_if config))
                      (apply_flag config) (destroy config)"
  define checks :: "py_error + int" where "checks = and_then (check_tools (os w) (console w)) (\<lambda>_.
                       and_then (validate_bicep_files (os w) (console w) (path_exists w)
                                   (infra_dir w)) (\<lambda>_. Inr 0))"
  have checks_cases: "(\<exists>e. checks = Inl e) \<or> checks = Inr 0"
    by (auto simp: checks_def and_then_def split: sum.splits)
  have m: "main a w =
      (case act of
         DryRun \<Rightarrow> (action_lines DryRun, checks)
       | WhatIf \<Rightarrow> (if checks = Inr 0 then action_lines WhatIf else mode_line WhatIf, checks)
       | _ \<Rightarrow> (action_lines act, Inr 0))"
    unfolding main_resolved [OF assms] act_def checks_def spec_select_action_def
    by (auto simp: and_then_def split: sum.splits)
  have sub: "set (fst (main a w)) \<subseteq> set (action_lines act)"
    using mode_line_prefix [of WhatIf] unfolding m by (cases act) auto
  have disj: "\<forall>other. other \<noteq> act \<longrightarrow> set (fst (main a w)) \<inter> set (action_lines other) = {}"
    using sub action_lines_disjoint by blast
  have rest: "take 1 (fst (main a w)) = mode_line act
           \<and> (fst (main a w) = mode_line act \<or> fst (main a w) = action_lines act)
           \<and> (snd (main a w) = Inr 0 \<longrightarrow> fst (main a w) = action_lines act)
           \<and> (act = DryRun \<or> act = WhatIf \<longrightarrow> snd (main a w) = checks)
           \<and> (act = Apply \<or> act = Destroy \<or> act = ReportOnly \<longrightarrow> snd (main a w) = Inr 0)"
    unfolding m by (cases act) auto
  show ?thesis
    using rest disj unfolding Let_def act_def [symmetric] checks_def [symmetric] by blast
qed

lemma resolve_all_flags:
  "resolve_config all_flags [] (PDict [])
     = Inr \<lparr> subscription_id = PNone, location = PStr ''eastus'', env_name = PStr ''dev'',
             profile = PStr ''default'', resources = default_resources,
             dry_run = PBool True, what_if = PBool True, apply_flag = True, destroy = True,
             extra_params = [] \<rparr>"
  by (simp add: resolve_config_def all_flags_def no_args_def and_then_def py_or_def opt_str_def
      post_init_def set_extra_params_def)

lemma camel_name_defaults:
  "camel_name ''container_registry'' = Inr ''containerRegistry''"
  "camel_name ''storage_account'' = Inr ''storageAccount''"
  "camel_name ''ai_services'' = Inr ''aiServices''"
  "camel_name ''search_service'' = Inr ''searchService''"
  by code_simp+

lemma print_config_defaults:
  "print_config unicode_stdout
     \<lparr> subscription_id = PNone, location = PStr ''eastus'', env_name = PStr ''dev'',
       profile = PStr ''default'', resources = default_resources,
       dry_run = d, what_if = wi, apply_flag = ap, destroy = de,
       extra_params = [] \<rparr> = Inr ()"
  by (simp add: print_config_def print_value_def unicode_stdout_def default_resources_def
      and_then_def build_infra_params_def resource_param_def update_params_def camel_name_defaults)

theorem main_action_priority_witness:
  "fst (main all_flags bare_world)
     = [''Running in DRY-RUN mode - no changes will be made'' @ [CHR 0x0A]]
   \<and> snd (main all_flags bare_world) = Inr 0
   \<and> spec_select_action True True True True = DryRun"
proof -
  have e: "env_file bare_world = Inr []"
    by (simp add: bare_world_def)
  have y: "loaded_yaml bare_world = Inr (PDict [])"
    by (simp add: loaded_yaml_def load_yaml_config_def bare_world_def)
  have p: "print_config (console bare_world)
     \<lparr> subscription_id = PNone, location = PStr ''eastus'', env_name = PStr ''dev'',
       profile = PStr ''default'', resources = default_resources,
       dry_run = PBool True, what_if = PBool True, apply_flag = True, destroy = True,
       extra_params = [] \<rparr> = Inr ()"
    using print_config_defaults by (simp add: bare_world_def)
  have s: "spec_select_action True True True True = DryRun"
    by (simp add: spec_select_action_def)
  have c: "check_tools (os bare_world) (console bare_world) = Inr False"
    by (simp add: check_tools_def require_tools_def require_tool_def run_def subprocess_run_def
        and_then_def bare_world_def unicode_stdout_def)
  have v: "validate_bicep_files (os bare_world) (console bare_world) (path_exists bare_world)
             (infra_dir bare_world) = Inr False"
    by (simp add: validate_bicep_files_def bare_world_def)
  from main_action_priority [OF e y resolve_all_flags p]
  have "fst (main all_flags bare_world) = action_lines DryRun"
    and "snd (main all_flags bare_world) = Inr 0"
    by (simp_all add: s c v and_then_def Let_def)
  with s show ?thesis by simp
qed

text \<open>Every status \<^verbatim>\<open>main\<close> returns is 0.\<close>

lemma main_status_zero: "snd (main a w) = Inr status \<Longrightarrow> status = 0"
  unfolding main_def
  by (auto simp: and_then_def split: sum.splits if_splits)

text \<open>
  Claim C6 says that every input ends in exit status 0. With the YAML parser installed and
  a \<^verbatim>\<open>config.yaml\<close> whose \<^verbatim>\<open>azure\<close> section is null, \<^verbatim>\<open>yaml_config.get('azure', {})\<close> is
  \<^verbatim>\<open>None\<close>, \<^verbatim>\<open>azure_config.get\<close> raises \<^verbatim>\<open>AttributeError\<close> inside \<^verbatim>\<open>resolve_config\<close>,
  nothing in \<^verbatim>\<open>main\<close> catches it, and the run ends with the exception instead of a
  returned status.
\<close>

theorem main_null_section_raises:
  "config_yaml null_section_world = Some (Inr (PDict [(PStr ''azure'', PNone)]))
   \<and> main no_args null_section_world = ([], Inl AttributeError)"
  by (simp add: main_def loaded_yaml_def load_yaml_config_def
      null_section_world_def bare_world_def resolve_config_def no_args_def and_then_def
      py_or_def opt_str_def)

end
